theory Spec2Isabelle
  imports Main "HOL-Library.Sublist"
begin

section \<open>Errors\<close>

text \<open>
  Every exception of the Python source is a value. The first group are the exceptions
  \<^verbatim>\<open>bpt.py\<close> can raise through \<^verbatim>\<open>assert\<close>, \<^verbatim>\<open>zipfile\<close>, list indexing,
  unbound locals and pandas; \<open>ParserError\<close> stands for whatever \<^verbatim>\<open>pd.read_csv\<close> raises
  and \<open>RegexError\<close> for \<^verbatim>\<open>re.error\<close>.
  The second group is the taxonomy of the specification; no function of the source
  constructs one of them.
\<close>

datatype error =
    AssertionError | UnboundLocalError | FileNotFoundError | NotADirectoryError
  | IsADirectoryError | BadZipFile | KeyError | TypeError | ValueError | IndexError
  | ParserError | RegexError
  | PathNotFound | NoMatchFound | EmptyResult | AmbiguousDictionarySchema | KeyColumnMissing

text \<open>A \<^verbatim>\<open>for\<close> loop whose body may raise: the first error leaves the loop.\<close>

fun foldE :: "('a \<Rightarrow> 's \<Rightarrow> error + 's) \<Rightarrow> 'a list \<Rightarrow> 's \<Rightarrow> error + 's" where
  "foldE f [] s = Inr s"
| "foldE f (x # xs) s = (case f x s of Inl e \<Rightarrow> Inl e | Inr s' \<Rightarrow> foldE f xs s')"

section \<open>Strings and paths\<close>

text \<open>\<^verbatim>\<open>s.split(c)\<close> for a one-character separator: never empty, keeps empty segments.\<close>

fun split_sep :: "char \<Rightarrow> string \<Rightarrow> string list" where
  "split_sep c [] = [[]]"
| "split_sep c (x # xs) =
     (if x = c then [] # split_sep c xs
      else (case split_sep c xs of [] \<Rightarrow> [[x]] | s # ss \<Rightarrow> (x # s) # ss))"

text \<open>\<^verbatim>\<open>xs[i]\<close>: an index below zero counts from the end, one outside the list
  raises \<open>IndexError\<close>.\<close>

definition py_index :: "'a list \<Rightarrow> int \<Rightarrow> error + 'a" where
  "py_index xs i =
     (if 0 \<le> i \<and> i < int (length xs) then Inr (xs ! nat i)
      else if i < 0 \<and> - int (length xs) \<le> i then Inr (xs ! nat (int (length xs) + i))
      else Inl IndexError)"

text \<open>\<^verbatim>\<open>os.path.join(a, b)\<close> on POSIX, for two arguments.\<close>

definition path_join :: "string \<Rightarrow> string \<Rightarrow> string" where
  "path_join a b =
     (if prefix ''/'' b then b
      else if a = [] \<or> suffix ''/'' a then a @ b
      else a @ ''/'' @ b)"

section \<open>The file system\<close>

text \<open>
  A directory lists its entries in the order \<^verbatim>\<open>os.scandir\<close> returns them. A regular
  file is either a zip archive, given by its members (name and bytes) in the order of
  \<^verbatim>\<open>namelist()\<close>, or some other file. Symbolic links are not modelled.
\<close>

datatype node =
    Directory "(string \<times> node) list"
  | Archive "(string \<times> string) list"
  | OtherFile

record filesystem =
  root :: node
  cwd :: "string list"

text \<open>
  One component of a path, from the directory on top of the stack (the rest of the stack
  are its ancestors). An empty component and \<open>.\<close> stay, \<open>..\<close> goes up (the root is
  its own parent); any component below a regular file is \<open>ENOTDIR\<close>.
\<close>

fun step_path :: "string \<Rightarrow> node list \<Rightarrow> error + node list" where
  "step_path c [] = Inl FileNotFoundError"
| "step_path c (Directory es # anc) =
     (if c = [] \<or> c = ''.'' then Inr (Directory es # anc)
      else if c = ''..'' then Inr (if anc = [] then [Directory es] else anc)
      else (case map_of es c of
              None \<Rightarrow> Inl FileNotFoundError
            | Some n \<Rightarrow> Inr (n # Directory es # anc)))"
| "step_path c (f # anc) = Inl NotADirectoryError"

definition resolve :: "filesystem \<Rightarrow> string \<Rightarrow> error + node" where
  "resolve fs path =
     (if path = [] then Inl FileNotFoundError
      else case (if prefix ''/'' path then Inr [root fs]
                 else foldE step_path (cwd fs) [root fs]) of
             Inl e \<Rightarrow> Inl e
           | Inr start \<Rightarrow>
               (case foldE step_path (split_sep CHR ''/'' path) start of
                  Inl e \<Rightarrow> Inl e
                | Inr [] \<Rightarrow> Inl FileNotFoundError
                | Inr (n # anc) \<Rightarrow> Inr n))"

text \<open>\<^verbatim>\<open>os.path.exists\<close>: false on every error of the lookup.\<close>

definition path_exists :: "filesystem \<Rightarrow> string \<Rightarrow> bool" where
  "path_exists fs path = (case resolve fs path of Inl e \<Rightarrow> False | Inr n \<Rightarrow> True)"

text \<open>
  \<^verbatim>\<open>os.walk(top)\<close>, top-down: the triple of a directory, then the walks of its
  subdirectories in listing order, each under \<^verbatim>\<open>os.path.join(top, name)\<close>. With the
  default \<^verbatim>\<open>onerror=None\<close> a top that is missing or not a directory yields nothing.
\<close>

definition is_dir :: "node \<Rightarrow> bool" where
  "is_dir n = (case n of Directory es \<Rightarrow> True | _ \<Rightarrow> False)"

fun walk_node :: "string \<Rightarrow> node \<Rightarrow> (string \<times> string list \<times> string list) list" where
  "walk_node dirpath (Directory es) =
     (dirpath, map fst (filter (\<lambda>e. is_dir (snd e)) es),
           map fst (filter (\<lambda>e. \<not> is_dir (snd e)) es))
     # concat (map (\<lambda>e. walk_node (path_join dirpath (fst e)) (snd e)) es)"
| "walk_node dirpath (Archive ms) = []"
| "walk_node dirpath OtherFile = []"

definition os_walk :: "filesystem \<Rightarrow> string \<Rightarrow> (string \<times> string list \<times> string list) list" where
  "os_walk fs dirpath =
     (case resolve fs dirpath of Inl e \<Rightarrow> [] | Inr n \<Rightarrow> walk_node dirpath n)"

text \<open>\<^verbatim>\<open>zipfile.ZipFile(path, "r")\<close>, its \<^verbatim>\<open>namelist()\<close> and \<^verbatim>\<open>open(name)\<close>. Of two
  members with one name, \<^verbatim>\<open>open\<close> reads the one added last.\<close>

definition ZipFile :: "filesystem \<Rightarrow> string \<Rightarrow> error + (string \<times> string) list" where
  "ZipFile fs path =
     (case resolve fs path of
        Inl e \<Rightarrow> Inl e
      | Inr (Directory es) \<Rightarrow> Inl IsADirectoryError
      | Inr (Archive ms) \<Rightarrow> Inr ms
      | Inr OtherFile \<Rightarrow> Inl BadZipFile)"

definition namelist :: "(string \<times> string) list \<Rightarrow> string list" where
  "namelist ms = map fst ms"

definition zip_open :: "(string \<times> string) list \<Rightarrow> string \<Rightarrow> error + string" where
  "zip_open ms name = (case map_of (rev ms) name of None \<Rightarrow> Inl KeyError | Some b \<Rightarrow> Inr b)"

section \<open>Tables\<close>

text \<open>
  A cell is missing (\<open>NaN\<close>), a string or a number. A table has its column labels and
  its rows, each row with one cell per column; the row index is the default
  \<^verbatim>\<open>RangeIndex\<close> that \<^verbatim>\<open>pd.read_csv\<close> gives a file whose rows have as many fields as
  its header. The labels \<^verbatim>\<open>pd.read_csv\<close> produces are strings (\<open>string table\<close>); after
  a rename a label can be any cell (\<open>cell table\<close>).
\<close>

datatype cell = NaN | Str string | Num int

record 'l table =
  columns :: "'l list"
  rows :: "cell list list"

text \<open>
  \<^verbatim>\<open>pd.read_csv\<close> belongs to pandas, not to this program: the loaders take it as the
  parameter \<open>rd\<close>, from the separator and the bytes of a member to a table or an error.
  \<open>Comma\<close> is the call with the defaults, \<open>Tab\<close> the call with
  \<^verbatim>\<open>sep='\t', engine='python', encoding='cp1252'\<close>.
\<close>

datatype sep = Comma | Tab

type_synonym reader = "sep \<Rightarrow> string \<Rightarrow> error + string table"

section \<open>Sheet Loader\<close>

definition years_for_exception :: "string list" where
  "years_for_exception = [''2014'', ''2015'']"

text \<open>\<^verbatim>\<open>any(x in dir_to_query for x in years_for_exception)\<close>\<close>

definition legacy :: "string \<Rightarrow> bool" where
  "legacy dir_to_query = list_ex (\<lambda>x. sublist x dir_to_query) years_for_exception"

definition dir_of_interest :: "string \<Rightarrow> string \<Rightarrow> string list \<Rightarrow> string list" where
  "dir_of_interest dir_to_query worksheet tmp =
     (if legacy dir_to_query then filter (\<lambda>d. sublist ''_ma'' d) tmp
      else filter (\<lambda>d. sublist worksheet d) tmp)"

text \<open>
  The three nested loops of \<^verbatim>\<open>load_sheet\<close>, innermost first. The loop state is the
  local \<^verbatim>\<open>df\<close>: \<open>None\<close> while it is unbound.
\<close>

definition sheet_member ::
  "reader \<Rightarrow> (string \<times> string) list \<Rightarrow> string \<Rightarrow> string
     \<Rightarrow> string table option \<Rightarrow> error + string table option" where
  "sheet_member rd z worksheet name df =
     (if sublist worksheet name
      then (case zip_open z name of
              Inl e \<Rightarrow> Inl e
            | Inr b \<Rightarrow> (case rd Tab b of Inl e \<Rightarrow> Inl e | Inr t \<Rightarrow> Inr (Some t)))
      else Inr df)"

definition sheet_archive ::
  "reader \<Rightarrow> filesystem \<Rightarrow> string \<Rightarrow> string \<Rightarrow> string
     \<Rightarrow> string table option \<Rightarrow> error + string table option" where
  "sheet_archive rd fs dir_to_query worksheet d df =
     (case ZipFile fs (path_join dir_to_query d) of
        Inl e \<Rightarrow> Inl e
      | Inr z \<Rightarrow> foldE (sheet_member rd z worksheet) (namelist z) df)"

definition sheet_walk ::
  "reader \<Rightarrow> filesystem \<Rightarrow> string \<Rightarrow> string \<Rightarrow> (string \<times> string list \<times> string list)
     \<Rightarrow> string table option \<Rightarrow> error + string table option" where
  "sheet_walk rd fs dir_to_query worksheet triple df =
     (case triple of (dirpath, dirnames, objs) \<Rightarrow>
        foldE (sheet_archive rd fs dir_to_query worksheet)
              (dir_of_interest dir_to_query worksheet objs) df)"

definition load_sheet :: "reader \<Rightarrow> filesystem \<Rightarrow> string \<Rightarrow> string \<Rightarrow> error + string table" where
  "load_sheet rd fs dir_to_query worksheet =
     (case foldE (sheet_walk rd fs dir_to_query worksheet) (os_walk fs dir_to_query) None of
        Inl e \<Rightarrow> Inl e
      | Inr None \<Rightarrow> Inl UnboundLocalError
      | Inr (Some df) \<Rightarrow> Inr df)"

section \<open>Dictionary Loader\<close>

text \<open>
  The loops of \<^verbatim>\<open>load_data_dict\<close>, innermost first; the state is the local
  \<^verbatim>\<open>data_dict\<close>. The pattern \<^verbatim>\<open>re.compile("dictionary")\<close> has no metacharacter:
  its \<^verbatim>\<open>search\<close> is the substring test.
\<close>

definition dict_member ::
  "reader \<Rightarrow> (string \<times> string) list \<Rightarrow> string
     \<Rightarrow> string table option \<Rightarrow> error + string table option" where
  "dict_member rd zippedFile zippedObj dd =
     (if suffix ''.csv'' zippedObj
      then (case zip_open zippedFile zippedObj of
              Inl e \<Rightarrow> Inl e
            | Inr b \<Rightarrow> (case rd Comma b of Inl e \<Rightarrow> Inl e | Inr t \<Rightarrow> Inr (Some t)))
      else Inr dd)"

definition dict_file ::
  "reader \<Rightarrow> filesystem \<Rightarrow> string \<Rightarrow> string
     \<Rightarrow> string table option \<Rightarrow> error + string table option" where
  "dict_file rd fs dir_to_query file dd =
     (if sublist ''dictionary'' file
      then (let full_path_to_zip = path_join dir_to_query file
            in if suffix ''.zip'' full_path_to_zip
               then (case ZipFile fs full_path_to_zip of
                       Inl e \<Rightarrow> Inl e
                     | Inr zippedFile \<Rightarrow>
                         foldE (dict_member rd zippedFile) (namelist zippedFile) dd)
               else Inr dd)
      else Inr dd)"

definition dict_walk ::
  "reader \<Rightarrow> filesystem \<Rightarrow> string \<Rightarrow> (string \<times> string list \<times> string list)
     \<Rightarrow> string table option \<Rightarrow> error + string table option" where
  "dict_walk rd fs dir_to_query triple dd =
     (case triple of (dirpath, dirnames, files) \<Rightarrow>
        foldE (dict_file rd fs dir_to_query) files dd)"

definition load_data_dict :: "reader \<Rightarrow> filesystem \<Rightarrow> string \<Rightarrow> error + string table" where
  "load_data_dict rd fs dir_to_query =
     (if \<not> path_exists fs dir_to_query then Inl AssertionError
      else case foldE (dict_walk rd fs dir_to_query) (os_walk fs dir_to_query) None of
             Inl e \<Rightarrow> Inl e
           | Inr None \<Rightarrow> Inl UnboundLocalError
           | Inr (Some dd) \<Rightarrow> Inr dd)"

section \<open>County Data Loader\<close>

text \<open>
  \<^verbatim>\<open>pd.concat(objs, axis=1)\<close> on tables with the default index: no table raises;
  otherwise the columns side by side, over the union of the indices, a table with fewer
  rows filled with \<open>NaN\<close>.
\<close>

definition pad_rows :: "nat \<Rightarrow> 'l table \<Rightarrow> cell list list" where
  "pad_rows n t = rows t @ replicate (n - length (rows t)) (replicate (length (columns t)) NaN)"

definition concat_axis1 :: "'l table list \<Rightarrow> error + 'l table" where
  "concat_axis1 ts =
     (if ts = [] then Inl ValueError
      else (let n = foldr max (map (\<lambda>t. length (rows t)) ts) 0
            in Inr \<lparr>columns = concat (map columns ts),
                    rows = map (\<lambda>i. concat (map (\<lambda>t. pad_rows n t ! i) ts)) [0..<n]\<rparr>))"

text \<open>
  \<^verbatim>\<open>re.compile(worksheet)\<close> takes the tag as a regular expression; the regex engine is
  the parameter \<open>re_compile\<close>, which gives the \<^verbatim>\<open>search\<close> test of a pattern or fails.
  The state of the loops of \<^verbatim>\<open>load_county_data\<close> is the list \<^verbatim>\<open>county\<close>.
\<close>

type_synonym regex = "string \<Rightarrow> error + (string \<Rightarrow> bool)"

definition county_member ::
  "reader \<Rightarrow> (string \<times> string) list \<Rightarrow> string \<Rightarrow> string
     \<Rightarrow> string table list \<Rightarrow> error + string table list" where
  "county_member rd zf dir_to_query f county =
     (if legacy dir_to_query
      then (if sublist ''ma_5'' f
            then (if suffix ''.txt'' f
                  then (case zip_open zf f of
                          Inl e \<Rightarrow> Inl e
                        | Inr b \<Rightarrow> (case rd Tab b of
                                      Inl e \<Rightarrow> Inl e
                                    | Inr t \<Rightarrow> Inr (county @ [t])))
                  else Inr county)
            else Inr county)
      else (if suffix ''.txt'' f
            then (case zip_open zf f of
                    Inl e \<Rightarrow> Inl e
                  | Inr b \<Rightarrow> (case rd Tab b of
                                Inl e \<Rightarrow> Inl e
                              | Inr t \<Rightarrow> Inr (county @ [t])))
            else Inr county))"

definition county_obj ::
  "reader \<Rightarrow> filesystem \<Rightarrow> string \<Rightarrow> (string \<Rightarrow> bool) \<Rightarrow> string
     \<Rightarrow> string table list \<Rightarrow> error + string table list" where
  "county_obj rd fs dir_to_query ma5_flag obj county =
     (if ma5_flag obj
      then (case ZipFile fs (path_join dir_to_query obj) of
              Inl e \<Rightarrow> Inl e
            | Inr zf \<Rightarrow> foldE (county_member rd zf dir_to_query) (namelist zf) county)
      else Inr county)"

definition county_walk ::
  "reader \<Rightarrow> filesystem \<Rightarrow> string \<Rightarrow> (string \<Rightarrow> bool)
     \<Rightarrow> (string \<times> string list \<times> string list)
     \<Rightarrow> string table list \<Rightarrow> error + string table list" where
  "county_walk rd fs dir_to_query ma5_flag triple county =
     (case triple of (dirpath, dirnames, objs) \<Rightarrow>
        foldE (county_obj rd fs dir_to_query ma5_flag) objs county)"

text \<open>The list \<^verbatim>\<open>county\<close> when the loops are left: the parts in discovery order.\<close>

definition county_parts ::
  "regex \<Rightarrow> reader \<Rightarrow> filesystem \<Rightarrow> string \<Rightarrow> string \<Rightarrow> error + string table list" where
  "county_parts re_compile rd fs dir_to_query worksheet =
     (case re_compile worksheet of
        Inl e \<Rightarrow> Inl e
      | Inr ma5_flag \<Rightarrow>
          foldE (county_walk rd fs dir_to_query ma5_flag) (os_walk fs dir_to_query) [])"

definition load_county_data ::
  "regex \<Rightarrow> reader \<Rightarrow> filesystem \<Rightarrow> string \<Rightarrow> string \<Rightarrow> error + string table" where
  "load_county_data re_compile rd fs dir_to_query worksheet =
     (case county_parts re_compile rd fs dir_to_query worksheet of
        Inl e \<Rightarrow> Inl e
      | Inr county \<Rightarrow> concat_axis1 county)"

section \<open>Field Renamer\<close>

text \<open>
  What the pandas expressions of \<^verbatim>\<open>replace_field_to_name\<close> evaluate to: a scalar, a
  \<^verbatim>\<open>Series\<close> or a \<^verbatim>\<open>DataFrame\<close>. Iterating a \<^verbatim>\<open>Series\<close> gives its values, iterating a
  \<^verbatim>\<open>DataFrame\<close> its column labels, iterating a Python string its characters; any other
  scalar is not iterable.
\<close>

datatype pobj = Scalar cell | Series "cell list" | Frame "string table"

fun py_iter :: "pobj \<Rightarrow> error + cell list" where
  "py_iter (Scalar (Str s)) = Inr (map (\<lambda>c. Str [c]) s)"
| "py_iter (Scalar c) = Inl TypeError"
| "py_iter (Series vs) = Inr vs"
| "py_iter (Frame t) = Inr (map Str (columns t))"

text \<open>\<^verbatim>\<open>df.iloc[:, sel]\<close> for a boolean sel over the columns.\<close>

definition select_columns :: "bool list \<Rightarrow> 'l table \<Rightarrow> 'l table" where
  "select_columns sel t =
     \<lparr>columns = map snd (filter fst (zip sel (columns t))),
      rows = map (\<lambda>r. map snd (filter fst (zip sel r))) (rows t)\<rparr>"

text \<open>\<^verbatim>\<open>df[label]\<close>: a missing label raises, a label of one column gives that column,
  a label of several columns gives the table of those columns.\<close>

definition getitem :: "string table \<Rightarrow> string \<Rightarrow> error + pobj" where
  "getitem t label =
     (let sel = map (\<lambda>c. c = label) (columns t);
          k = length (filter (\<lambda>c. c = label) (columns t))
      in if k = 0 then Inl KeyError
         else if k = 1 then Inr (Series (concat (rows (select_columns sel t))))
         else Inr (Frame (select_columns sel t)))"

text \<open>\<^verbatim>\<open>DataFrame.squeeze()\<close>: every axis of length one is dropped.\<close>

definition squeeze :: "string table \<Rightarrow> pobj" where
  "squeeze t =
     (let k = length (columns t); n = length (rows t)
      in if k = 1 \<and> n = 1 then Scalar (case concat (rows t) of [] \<Rightarrow> NaN | c # cs \<Rightarrow> c)
         else if k = 1 \<or> n = 1 then Series (concat (rows t))
         else Frame t)"

text \<open>\<^verbatim>\<open>df.rename(columns=dict(pairs))\<close>: in the dictionary the last pair of a key wins.\<close>

definition rename_columns :: "(cell \<times> cell) list \<Rightarrow> string table \<Rightarrow> cell table" where
  "rename_columns pairs df =
     \<lparr>columns = map (\<lambda>c. case map_of (rev pairs) (Str c) of None \<Rightarrow> Str c | Some v \<Rightarrow> v)
                     (columns df),
      rows = rows df\<rparr>"

definition replace_field_to_name :: "string table \<Rightarrow> string table \<Rightarrow> error + cell table" where
  "replace_field_to_name dd df =
     (case getitem dd ''NAME'' of
        Inl e \<Rightarrow> Inl e
      | Inr names \<Rightarrow>
          (let fields = squeeze (select_columns (map (sublist ''FIELD'') (columns dd)) dd)
           in case py_iter names of
                Inl e \<Rightarrow> Inl e
              | Inr ks \<Rightarrow>
                  (case py_iter fields of
                     Inl e \<Rightarrow> Inl e
                   | Inr vs \<Rightarrow> Inr (rename_columns (zip ks vs) df))))"

section \<open>Data Loader\<close>

text \<open>\<^verbatim>\<open>df.dropna(subset=[label])\<close>: a label of no column raises; a row stays when no
  column of that label is missing in it.\<close>

definition dropna_subset :: "cell \<Rightarrow> cell table \<Rightarrow> error + cell table" where
  "dropna_subset label t =
     (if list_ex (\<lambda>l. l = label) (columns t)
      then Inr \<lparr>columns = columns t,
                rows = filter (\<lambda>r. list_all (\<lambda>lc. if fst lc = label then snd lc \<noteq> NaN else True)
                                              (zip (columns t) r))
                              (rows t)\<rparr>
      else Inl KeyError)"

definition bid_id :: string where
  "bid_id = ''BID ID (H-number, Plan ID, Segment ID)''"

definition data_loader ::
  "reader \<Rightarrow> filesystem \<Rightarrow> string \<Rightarrow> string \<Rightarrow> string table \<Rightarrow> error + cell table" where
  "data_loader rd fs dirpath worksheet dd =
     (case load_sheet rd fs dirpath worksheet of
        Inl e \<Rightarrow> Inl e
      | Inr df \<Rightarrow>
          (case replace_field_to_name dd df of
             Inl e \<Rightarrow> Inl e
           | Inr renamed_df \<Rightarrow> dropna_subset (Str bid_id) renamed_df))"

section \<open>The bundle\<close>

record BPT =
  year :: string
  data_dict :: "string table"
  ma_1 :: "cell table"
  ma_2 :: "cell table"
  ma_3 :: "cell table"
  ma_4 :: "cell table"
  ma_5 :: "cell table"
  ma_6 :: "cell table"
  ma_7 :: "cell table"

text \<open>
  \<^verbatim>\<open>BPT(yeardir)\<close>: the statements of \<^verbatim>\<open>__init__\<close> in order (the calls of
  \<^verbatim>\<open>print\<close> left out). An exception in any of them leaves the constructor, and the
  caller gets no object: \<open>bindE\<close> runs the rest only on a result.
\<close>

definition bindE :: "error + 'a \<Rightarrow> ('a \<Rightarrow> error + 'b) \<Rightarrow> error + 'b" where
  "bindE m f = (case m of Inl e \<Rightarrow> Inl e | Inr x \<Rightarrow> f x)"

definition BPT_init :: "reader \<Rightarrow> filesystem \<Rightarrow> string \<Rightarrow> error + BPT" where
  "BPT_init rd fs yeardir =
     bindE (py_index (split_sep CHR ''/'' yeardir) (- 2)) (\<lambda>y.
     bindE (load_data_dict rd fs yeardir) (\<lambda>dd.
     bindE (data_loader rd fs yeardir ''ma_1'' dd) (\<lambda>m1.
     bindE (data_loader rd fs yeardir ''ma_2'' dd) (\<lambda>m2.
     bindE (data_loader rd fs yeardir ''ma_3'' dd) (\<lambda>m3.
     bindE (data_loader rd fs yeardir ''ma_4'' dd) (\<lambda>m4.
     bindE (data_loader rd fs yeardir ''ma_5'' dd) (\<lambda>m5.
     bindE (data_loader rd fs yeardir ''ma_6'' dd) (\<lambda>m6.
     bindE (data_loader rd fs yeardir ''ma_7'' dd) (\<lambda>m7.
       Inr \<lparr>year = y, data_dict = dd, ma_1 = m1, ma_2 = m2, ma_3 = m3, ma_4 = m4,
            ma_5 = m5, ma_6 = m6, ma_7 = m7\<rparr>)))))))))"

section \<open>Example inputs\<close>

text \<open>
  A reader for the examples: lines end in a line feed, blank lines are skipped, the
  first line is the header, an empty field is missing and every other field a string.
  On text without quotes whose fields are neither numbers nor markers of a missing
  value this is the table \<^verbatim>\<open>pd.read_csv\<close> returns.
\<close>

definition cell_of :: "string \<Rightarrow> cell" where
  "cell_of s = (if s = [] then NaN else Str s)"

definition sep_char :: "sep \<Rightarrow> char" where
  "sep_char s = (case s of Comma \<Rightarrow> CHR '','' | Tab \<Rightarrow> CHR 0x09)"

definition text_reader :: reader where
  "text_reader s b =
     (case filter (\<lambda>l. l \<noteq> []) (split_sep CHR 0x0A b) of
        [] \<Rightarrow> Inl ParserError
      | h # ls \<Rightarrow> Inr \<lparr>columns = split_sep (sep_char s) h,
                       rows = map (\<lambda>l. map cell_of (split_sep (sep_char s) l)) ls\<rparr>)"

text \<open>A tag without metacharacters as a regular expression: the substring test.\<close>

definition literal_regex :: regex where
  "literal_regex p = Inr (sublist p)"

text \<open>
  A year directory \<^verbatim>\<open>/bpt/2020\<close>: the dictionary archive, one archive for each of
  six worksheets and two archives for the county worksheet \<^verbatim>\<open>ma_5\<close>. Every text has
  the key column, a column \<^verbatim>\<open>cty\<close>, one row with a key and one row without.
\<close>

definition dict_csv :: string where
  "dict_csv = ''NAME,FIELD_TITLE'' @ [CHR 0x0A] @
              ''cty,County'' @ [CHR 0x0A] @
              ''enr,Enrollment'' @ [CHR 0x0A]"

definition sheet_txt :: "string \<Rightarrow> string" where
  "sheet_txt v = bid_id @ [CHR 0x09] @ ''cty'' @ [CHR 0x0A] @
                 ''H1'' @ [CHR 0x09] @ v @ [CHR 0x0A] @
                 [CHR 0x09] @ ''Surrey'' @ [CHR 0x0A]"

definition year_2020 :: node where
  "year_2020 = Directory
     [(''dictionary.zip'', Archive [(''dictionary.csv'', dict_csv)]),
      (''ma_1.zip'', Archive [(''ma_1.txt'', sheet_txt ''one'')]),
      (''ma_2.zip'', Archive [(''ma_2.txt'', sheet_txt ''two'')]),
      (''ma_3.zip'', Archive [(''ma_3.txt'', sheet_txt ''three'')]),
      (''ma_4.zip'', Archive [(''ma_4.txt'', sheet_txt ''four'')]),
      (''ma_5_a.zip'', Archive [(''ma_5_a.txt'', sheet_txt ''Kent'')]),
      (''ma_5_b.zip'', Archive [(''ma_5_b.txt'', sheet_txt ''Essex'')]),
      (''ma_6.zip'', Archive [(''ma_6.txt'', sheet_txt ''six'')]),
      (''ma_7.zip'', Archive [(''ma_7.txt'', sheet_txt ''seven'')])]"

text \<open>
  Five more year directories: \<^verbatim>\<open>2014\<close>, a legacy year with one archive for all
  worksheets; \<^verbatim>\<open>2019\<close>, whose county archive holds three one-column parts of two rows;
  \<^verbatim>\<open>2021\<close>, whose dictionary archive lies in the subdirectory \<^verbatim>\<open>docs\<close>;
  \<^verbatim>\<open>2022\<close>, whose worksheet has no key column; \<^verbatim>\<open>2023\<close>, which has no archive
  for \<^verbatim>\<open>ma_7\<close>.
\<close>

definition year_2014 :: node where
  "year_2014 = Directory
     [(''dictionary.zip'', Archive [(''dictionary.csv'', dict_csv)]),
      (''2014_ma.zip'', Archive [(''ma_1.txt'', sheet_txt ''one''),
                                 (''ma_2.txt'', sheet_txt ''two'')])]"

definition part_txt :: "string \<Rightarrow> string" where
  "part_txt c = c @ [CHR 0x0A] @ ''low'' @ [CHR 0x0A] @ ''high'' @ [CHR 0x0A]"

definition year_2019 :: node where
  "year_2019 = Directory
     [(''ma_5.zip'', Archive [(''kent.txt'', part_txt ''Kent''),
                              (''essex.txt'', part_txt ''Essex''),
                              (''surrey.txt'', part_txt ''Surrey'')])]"

definition year_2021 :: node where
  "year_2021 = Directory
     [(''docs'', Directory
        [(''dictionary.zip'', Archive [(''dictionary.csv'', dict_csv)])])]"

definition year_2022 :: node where
  "year_2022 = Directory
     [(''ma_1.zip'', Archive [(''ma_1.txt'', part_txt ''cty'')])]"

definition year_2023 :: node where
  "year_2023 = Directory
     [(''dictionary.zip'', Archive [(''dictionary.csv'', dict_csv)]),
      (''ma_1.zip'', Archive [(''ma_1.txt'', sheet_txt ''one'')]),
      (''ma_2.zip'', Archive [(''ma_2.txt'', sheet_txt ''two'')]),
      (''ma_3.zip'', Archive [(''ma_3.txt'', sheet_txt ''three'')]),
      (''ma_4.zip'', Archive [(''ma_4.txt'', sheet_txt ''four'')]),
      (''ma_5.zip'', Archive [(''ma_5.txt'', sheet_txt ''Kent'')]),
      (''ma_6.zip'', Archive [(''ma_6.txt'', sheet_txt ''six'')])]"

definition bpt_fs :: filesystem where
  "bpt_fs =
     \<lparr>root = Directory
        [(''bpt'', Directory
           [(''2014'', year_2014), (''2019'', year_2019), (''2020'', year_2020),
            (''2021'', year_2021), (''2022'', year_2022), (''2023'', year_2023)])],
      cwd = []\<rparr>"

text \<open>Dictionaries of one row, of two rows, and with two columns matching
  \<^verbatim>\<open>FIELD\<close>; a worksheet with the columns \<^verbatim>\<open>F1\<close>, \<^verbatim>\<open>F2\<close>, \<^verbatim>\<open>F3\<close>.\<close>

definition one_row_dict :: "string table" where
  "one_row_dict = \<lparr>columns = [''NAME'', ''FIELD_TITLE''],
                    rows = [[Str ''F1'', Str ''Plan Name'']]\<rparr>"

definition two_row_dict :: "string table" where
  "two_row_dict = \<lparr>columns = [''NAME'', ''FIELD_TITLE''],
                    rows = [[Str ''F1'', Str ''Plan Name''], [Str ''F2'', Str ''Region'']]\<rparr>"

definition two_field_dict :: "string table" where
  "two_field_dict = \<lparr>columns = [''NAME'', ''FIELD_TITLE'', ''FIELD_LENGTH''],
                      rows = [[Str ''F1'', Str ''Plan Name'', Num 40],
                              [Str ''F2'', Str ''Region'', Num 12]]\<rparr>"

definition plan_sheet :: "string table" where
  "plan_sheet = \<lparr>columns = [''F1'', ''F2'', ''F3''],
                  rows = [[Str ''Gold'', Str ''North'', Str ''x'']]\<rparr>"

section \<open>Notions for the statements\<close>

text \<open>The archives \<^verbatim>\<open>load_sheet\<close> opens, in the order it opens them: the files
  selected in each directory of the walk.\<close>

definition candidates :: "filesystem \<Rightarrow> string \<Rightarrow> string \<Rightarrow> string list" where
  "candidates fs dir_to_query worksheet =
     concat (map (\<lambda>t. dir_of_interest dir_to_query worksheet (snd (snd t)))
                 (os_walk fs dir_to_query))"

text \<open>Where the table held by the local \<^verbatim>\<open>df\<close> comes from: a member whose name
  contains the tag, inside one of the archives \<open>ds\<close> opened under the year directory.\<close>

definition sheet_source ::
  "reader \<Rightarrow> filesystem \<Rightarrow> string \<Rightarrow> string \<Rightarrow> string list \<Rightarrow> string table option \<Rightarrow> bool" where
  "sheet_source rd fs dir ws ds df =
     (case df of None \<Rightarrow> True
      | Some t \<Rightarrow> \<exists>d z name b. d \<in> set ds \<and> ZipFile fs (path_join dir d) = Inr z \<and>
           name \<in> set (namelist z) \<and> sublist ws name \<and> zip_open z name = Inr b \<and> rd Tab b = Inr t)"

text \<open>The worksheet tags in the order the constructor loads them, and the error of the
  first statement of the constructor that fails: the year label, the dictionary, then the
  seven worksheets.\<close>

definition worksheets :: "string list" where
  "worksheets = [''ma_1'', ''ma_2'', ''ma_3'', ''ma_4'', ''ma_5'', ''ma_6'', ''ma_7'']"

definition first_failure :: "reader \<Rightarrow> filesystem \<Rightarrow> string \<Rightarrow> error option" where
  "first_failure rd fs yeardir =
     (case py_index (split_sep CHR ''/'' yeardir) (- 2) of
        Inl e \<Rightarrow> Some e
      | Inr y \<Rightarrow>
          (case load_data_dict rd fs yeardir of
             Inl e \<Rightarrow> Some e
           | Inr dd \<Rightarrow>
               (case List.map_filter
                       (\<lambda>w. case data_loader rd fs yeardir w dd of
                               Inl e \<Rightarrow> Some e | Inr t \<Rightarrow> None) worksheets of
                  [] \<Rightarrow> None
                | e # es \<Rightarrow> Some e)))"

text \<open>
  The Sheet Loader in the words of the specification. \<open>member_reads\<close> lists what is
  read from the archives \<open>ds\<close>, in order: an archive that does not open gives its
  error; an archive that opens gives, for each member whose name contains the worksheet
  tag, the table parsed from that member or the error of parsing it. \<open>last_read\<close> is
  the outcome of such a list: the first error, and without an error the table read last.
\<close>

definition member_reads ::
  "reader \<Rightarrow> filesystem \<Rightarrow> string \<Rightarrow> string \<Rightarrow> string list \<Rightarrow> (error + string table) list" where
  "member_reads rd fs dir_to_query worksheet ds =
     concat (map (\<lambda>d. case ZipFile fs (path_join dir_to_query d) of
                         Inl e \<Rightarrow> [Inl e]
                       | Inr z \<Rightarrow>
                           map (\<lambda>name. case zip_open z name of
                                          Inl e \<Rightarrow> Inl e
                                        | Inr b \<Rightarrow> rd Tab b)
                               (filter (sublist worksheet) (namelist z)))
                 ds)"

fun last_read :: "(error + 'a) list \<Rightarrow> 'a option \<Rightarrow> error + 'a option" where
  "last_read [] held = Inr held"
| "last_read (Inl e # rs) held = Inl e"
| "last_read (Inr t # rs) held = last_read rs (Some t)"


section \<open>Properties of the loaders\<close>

subsection \<open>Loops\<close>

lemma foldE_append:
  "foldE f (xs @ ys) s = (case foldE f xs s of Inl e \<Rightarrow> Inl e | Inr s' \<Rightarrow> foldE f ys s')"
  by (induction xs arbitrary: s) (auto split: sum.splits)

lemma foldE_concat_map:
  "foldE (\<lambda>x. foldE f (g x)) xs s = foldE f (concat (map g xs)) s"
  by (induction xs arbitrary: s) (auto simp: foldE_append split: sum.splits)

lemma foldE_invariant:
  assumes "foldE f xs s = Inr s'" and "P s"
    and "\<And>x a b. x \<in> set xs \<Longrightarrow> P a \<Longrightarrow> f x a = Inr b \<Longrightarrow> P b"
  shows "P s'"
  using assms
proof (induction xs arbitrary: s)
  case Nil
  then show ?case by simp
next
  case (Cons x xs)
  from Cons.prems(1) obtain m where m: "f x s = Inr m" and r: "foldE f xs m = Inr s'"
    by (auto split: sum.splits)
  have "P m" using Cons.prems(2,3) m by auto
  then show ?case using Cons.IH[OF r] Cons.prems(3) by auto
qed

subsection \<open>The Sheet Loader as one loop over the selected archives\<close>

lemma sheet_walk_flat:
  "foldE (sheet_walk rd fs dir ws) tr s =
   foldE (sheet_archive rd fs dir ws) (concat (map (\<lambda>t. dir_of_interest dir ws (snd (snd t))) tr)) s"
proof -
  have "sheet_walk rd fs dir ws = (\<lambda>t. foldE (sheet_archive rd fs dir ws) (dir_of_interest dir ws (snd (snd t))))"
    by (auto simp: sheet_walk_def fun_eq_iff split: prod.splits)
  then show ?thesis by (simp add: foldE_concat_map)
qed

lemma dir_of_interest_legacy:
  "legacy dir \<Longrightarrow> dir_of_interest dir ws objs = filter (sublist ''_ma'') objs"
  by (simp add: dir_of_interest_def)

lemma sheet_archive_source:
  assumes "sheet_archive rd fs dir ws d a = Inr b" "sheet_source rd fs dir ws ds a" "d \<in> set ds"
  shows "sheet_source rd fs dir ws ds b"
proof -
  from assms(1) obtain z where z: "ZipFile fs (path_join dir d) = Inr z"
    and f: "foldE (sheet_member rd z ws) (namelist z) a = Inr b"
    by (auto simp: sheet_archive_def split: sum.splits)
  show ?thesis
  proof (rule foldE_invariant[OF f, where P = "sheet_source rd fs dir ws ds"])
    show "sheet_source rd fs dir ws ds a" by (rule assms(2))
  next
    fix x u v
    assume "x \<in> set (namelist z)" "sheet_source rd fs dir ws ds u" "sheet_member rd z ws x u = Inr v"
    then show "sheet_source rd fs dir ws ds v"
      using z assms(3)
      by (auto simp: sheet_member_def sheet_source_def split: if_splits sum.splits option.splits)
  qed
qed

lemma sheet_archives_source:
  assumes "foldE (sheet_archive rd fs dir ws) ds None = Inr df"
  shows "sheet_source rd fs dir ws ds df"
  by (rule foldE_invariant[OF assms, where P = "sheet_source rd fs dir ws ds"])
     (auto simp: sheet_source_def intro: sheet_archive_source[unfolded sheet_source_def])

lemma load_sheet_flat:
  "load_sheet rd fs dir ws =
     (case foldE (sheet_archive rd fs dir ws) (candidates fs dir ws) None of
        Inl e \<Rightarrow> Inl e
      | Inr None \<Rightarrow> Inl UnboundLocalError
      | Inr (Some df) \<Rightarrow> Inr df)"
  by (simp add: load_sheet_def sheet_walk_flat candidates_def)

lemma candidates_legacy:
  "legacy dir \<Longrightarrow>
   candidates fs dir ws = concat (map (\<lambda>t. filter (sublist ''_ma'') (snd (snd t))) (os_walk fs dir))"
  by (simp add: candidates_def dir_of_interest_legacy)

subsection \<open>The county worksheet of the bundle\<close>

text \<open>
  C1. The claim is that the bundle's \<^verbatim>\<open>ma_5\<close> table comes from the County Data
  Loader, the column-wise concatenation of the parts found for the benchmark tag. The
  constructor calls \<^verbatim>\<open>data_loader\<close> for \<^verbatim>\<open>ma_5\<close> as for the other six worksheets:
  on \<^verbatim>\<open>/bpt/2020/\<close>, whose county worksheet has two archives, the \<^verbatim>\<open>ma_5\<close> slot holds
  the part read last, with its row without a key removed, while \<^verbatim>\<open>load_county_data\<close>
  returns both parts side by side.
\<close>

theorem C1_ma_5_from_sheet_loader:
  "(case BPT_init text_reader bpt_fs ''/bpt/2020/'' of
      Inl e \<Rightarrow> False
    | Inr b \<Rightarrow> ma_5 b = \<lparr>columns = [Str bid_id, Str ''County''],
                         rows = [[Str ''H1'', Str ''Essex'']]\<rparr>)
   \<and> load_county_data literal_regex text_reader bpt_fs ''/bpt/2020/'' ''ma_5'' =
        Inr \<lparr>columns = [bid_id, ''cty'', bid_id, ''cty''],
             rows = [[Str ''H1'', Str ''Kent'', Str ''H1'', Str ''Essex''],
                     [NaN, Str ''Surrey'', NaN, Str ''Surrey'']]\<rparr>"
  by code_simp

subsection \<open>The Field Renamer on a dictionary of one row\<close>

text \<open>
  C6. The claim is that every worksheet column equal to a dictionary code is renamed to
  the label of that code. On a dictionary of one row \<^verbatim>\<open>squeeze()\<close> turns the label
  column into the label itself, a Python string, and \<^verbatim>\<open>zip\<close> pairs the code with its
  first character: the column \<^verbatim>\<open>F1\<close> is renamed to \<^verbatim>\<open>P\<close>, not to \<^verbatim>\<open>Plan Name\<close>.
  With the two rows of the specification's example the columns are renamed as claimed.
\<close>

theorem C6_one_row_dictionary:
  "replace_field_to_name one_row_dict plan_sheet =
     Inr \<lparr>columns = [Str ''P'', Str ''F2'', Str ''F3''],
          rows = [[Str ''Gold'', Str ''North'', Str ''x'']]\<rparr>
   \<and> replace_field_to_name two_row_dict plan_sheet =
     Inr \<lparr>columns = [Str ''Plan Name'', Str ''Region'', Str ''F3''],
          rows = [[Str ''Gold'', Str ''North'', Str ''x'']]\<rparr>"
  by code_simp

subsection \<open>The Dictionary Loader and subdirectories\<close>

text \<open>
  C9. The claim is that a dictionary archive in a subdirectory of the year directory is
  found, opened and parsed. The walk of \<^verbatim>\<open>/bpt/2021/\<close> lists \<^verbatim>\<open>dictionary.zip\<close> under
  \<^verbatim>\<open>docs\<close>, and the archive opens at its own path; \<^verbatim>\<open>load_data_dict\<close> joins the file
  name to the year directory instead of the walked directory, and fails with
  \<open>FileNotFoundError\<close>.
\<close>

theorem C9_dictionary_in_subdirectory:
  "os_walk bpt_fs ''/bpt/2021/'' =
     [(''/bpt/2021/'', [''docs''], []), (''/bpt/2021/docs'', [], [''dictionary.zip''])]
   \<and> ZipFile bpt_fs ''/bpt/2021/docs/dictionary.zip'' = Inr [(''dictionary.csv'', dict_csv)]
   \<and> load_data_dict text_reader bpt_fs ''/bpt/2021/'' = Inl FileNotFoundError"
  by code_simp

subsection \<open>Archive selection in a legacy year\<close>

lemma last_read_append:
  "last_read (xs @ ys) held =
     (case last_read xs held of Inl e \<Rightarrow> Inl e | Inr h \<Rightarrow> last_read ys h)"
  by (induction xs held rule: last_read.induct) auto

lemma sheet_members_reads:
  "foldE (sheet_member rd z ws) ns df =
     last_read (map (\<lambda>name. case zip_open z name of Inl e \<Rightarrow> Inl e | Inr b \<Rightarrow> rd Tab b)
                    (filter (sublist ws) ns)) df"
  by (induction ns arbitrary: df) (auto simp: sheet_member_def split: sum.splits)

lemma sheet_archives_reads:
  "foldE (sheet_archive rd fs dir ws) ds df = last_read (member_reads rd fs dir ws ds) df"
proof (induction ds arbitrary: df)
  case Nil
  then show ?case by (simp add: member_reads_def)
next
  case (Cons d ds)
  have m: "member_reads rd fs dir ws (d # ds) =
             (case ZipFile fs (path_join dir d) of
                Inl e \<Rightarrow> [Inl e]
              | Inr z \<Rightarrow> map (\<lambda>name. case zip_open z name of Inl e \<Rightarrow> Inl e | Inr b \<Rightarrow> rd Tab b)
                             (filter (sublist ws) (namelist z)))
             @ member_reads rd fs dir ws ds"
    by (simp add: member_reads_def)
  show ?case
  proof (cases "ZipFile fs (path_join dir d)")
    case (Inl e)
    then show ?thesis by (simp add: m sheet_archive_def)
  next
    case (Inr z)
    then have "sheet_archive rd fs dir ws d df =
                 last_read (map (\<lambda>name. case zip_open z name of Inl e \<Rightarrow> Inl e | Inr b \<Rightarrow> rd Tab b)
                                (filter (sublist ws) (namelist z))) df"
      by (simp add: sheet_archive_def sheet_members_reads)
    with Inr show ?thesis
      by (simp add: m last_read_append Cons.IH split: sum.splits)
  qed
qed

lemma load_sheet_reads:
  "load_sheet rd fs dir ws =
     (case last_read (member_reads rd fs dir ws (candidates fs dir ws)) None of
        Inl e \<Rightarrow> Inl e
      | Inr None \<Rightarrow> Inl UnboundLocalError
      | Inr (Some df) \<Rightarrow> Inr df)"
  by (simp add: load_sheet_flat sheet_archives_reads)

text \<open>
  C2. When the path of the year directory contains \<^verbatim>\<open>2014\<close> or \<^verbatim>\<open>2015\<close>, the Sheet
  Loader selects the archives whose name contains \<^verbatim>\<open>_ma\<close>, whatever the worksheet
  tag, and uses the tag only inside them: its result is the outcome of reading, from
  exactly those archives in the order of the walk, every member whose name contains the
  tag. It returns the table parsed from the last such member, fails with the first error
  of opening or parsing, and fails with \<open>UnboundLocalError\<close> when there is no such
  member. A table it returns was parsed from a member whose name contains the tag,
  inside an archive whose name contains \<^verbatim>\<open>_ma\<close>.
\<close>

theorem C2_legacy_archive_selection:
  assumes "legacy dir_to_query"
  shows "dir_of_interest dir_to_query worksheet objs = filter (sublist ''_ma'') objs
       \<and> load_sheet rd fs dir_to_query worksheet =
           (case last_read
                   (member_reads rd fs dir_to_query worksheet
                      (concat (map (\<lambda>t. filter (sublist ''_ma'') (snd (snd t)))
                                   (os_walk fs dir_to_query))))
                   None of
              Inl e \<Rightarrow> Inl e
            | Inr None \<Rightarrow> Inl UnboundLocalError
            | Inr (Some df) \<Rightarrow> Inr df)
       \<and> (case load_sheet rd fs dir_to_query worksheet of
             Inl e \<Rightarrow> True
           | Inr df \<Rightarrow>
               (\<exists>t d z name b. t \<in> set (os_walk fs dir_to_query) \<and> d \<in> set (snd (snd t)) \<and>
                  sublist ''_ma'' d \<and> ZipFile fs (path_join dir_to_query d) = Inr z \<and>
                  name \<in> set (namelist z) \<and> sublist worksheet name \<and>
                  zip_open z name = Inr b \<and> rd Tab b = Inr df))"
proof (intro conjI)
  show "dir_of_interest dir_to_query worksheet objs = filter (sublist ''_ma'') objs"
    using assms by (rule dir_of_interest_legacy)
next
  show "load_sheet rd fs dir_to_query worksheet =
           (case last_read
                   (member_reads rd fs dir_to_query worksheet
                      (concat (map (\<lambda>t. filter (sublist ''_ma'') (snd (snd t)))
                                   (os_walk fs dir_to_query))))
                   None of
              Inl e \<Rightarrow> Inl e
            | Inr None \<Rightarrow> Inl UnboundLocalError
            | Inr (Some df) \<Rightarrow> Inr df)"
    using candidates_legacy[OF assms, of fs worksheet]
    by (simp add: load_sheet_reads)
next
  show "case load_sheet rd fs dir_to_query worksheet of
             Inl e \<Rightarrow> True
           | Inr df \<Rightarrow>
               (\<exists>t d z name b. t \<in> set (os_walk fs dir_to_query) \<and> d \<in> set (snd (snd t)) \<and>
                  sublist ''_ma'' d \<and> ZipFile fs (path_join dir_to_query d) = Inr z \<and>
                  name \<in> set (namelist z) \<and> sublist worksheet name \<and>
                  zip_open z name = Inr b \<and> rd Tab b = Inr df)"
  proof (cases "load_sheet rd fs dir_to_query worksheet")
    case (Inl e)
    then show ?thesis by simp
  next
    case (Inr df)
    then have f: "foldE (sheet_archive rd fs dir_to_query worksheet)
                    (candidates fs dir_to_query worksheet) None = Inr (Some df)"
      by (auto simp: load_sheet_flat split: sum.splits option.splits)
    from sheet_archives_source[OF f]
    obtain d z name b where d: "d \<in> set (candidates fs dir_to_query worksheet)"
      and r: "ZipFile fs (path_join dir_to_query d) = Inr z" "name \<in> set (namelist z)"
             "sublist worksheet name" "zip_open z name = Inr b" "rd Tab b = Inr df"
      by (auto simp: sheet_source_def)
    from d assms obtain t where "t \<in> set (os_walk fs dir_to_query)" "d \<in> set (snd (snd t))"
      "sublist ''_ma'' d"
      by (auto simp: candidates_legacy)
    with r Inr show ?thesis by (cases t) fastforce
  qed
qed

theorem C2_legacy_archive_selection_witness:
  "legacy ''/bpt/2014/''
   \<and> dir_of_interest ''/bpt/2014/'' ''ma_2'' [''dictionary.zip'', ''2014_ma.zip''] = [''2014_ma.zip'']
   \<and> member_reads text_reader bpt_fs ''/bpt/2014/'' ''ma_2'' [''2014_ma.zip''] =
       [Inr \<lparr>columns = [bid_id, ''cty''],
             rows = [[Str ''H1'', Str ''two''], [NaN, Str ''Surrey'']]\<rparr>]
   \<and> load_sheet text_reader bpt_fs ''/bpt/2014/'' ''ma_2'' =
       Inr \<lparr>columns = [bid_id, ''cty''],
            rows = [[Str ''H1'', Str ''two''], [NaN, Str ''Surrey'']]\<rparr>"
proof -
  have h: "legacy ''/bpt/2014/''" by code_simp
  have e1: "filter (sublist ''_ma'') [''dictionary.zip'', ''2014_ma.zip''] = [''2014_ma.zip'']"
    by code_simp
  have e0: "member_reads text_reader bpt_fs ''/bpt/2014/'' ''ma_2'' [''2014_ma.zip''] =
       [Inr \<lparr>columns = [bid_id, ''cty''],
             rows = [[Str ''H1'', Str ''two''], [NaN, Str ''Surrey'']]\<rparr>]"
    by code_simp
  have e2: "(case last_read
                   (member_reads text_reader bpt_fs ''/bpt/2014/'' ''ma_2''
                      (concat (map (\<lambda>t. filter (sublist ''_ma'') (snd (snd t)))
                                   (os_walk bpt_fs ''/bpt/2014/''))))
                   None of
              Inl e \<Rightarrow> Inl e
            | Inr None \<Rightarrow> Inl UnboundLocalError
            | Inr (Some df) \<Rightarrow> Inr df) =
       Inr \<lparr>columns = [bid_id, ''cty''],
            rows = [[Str ''H1'', Str ''two''], [NaN, Str ''Surrey'']]\<rparr>"
    by code_simp
  note c = C2_legacy_archive_selection[OF h, of "''ma_2''" "[''dictionary.zip'', ''2014_ma.zip'']"
             text_reader bpt_fs]
  from c have c1: "dir_of_interest ''/bpt/2014/'' ''ma_2'' [''dictionary.zip'', ''2014_ma.zip'']
                 = filter (sublist ''_ma'') [''dictionary.zip'', ''2014_ma.zip'']"
    by (rule conjunct1)
  from c have c2: "load_sheet text_reader bpt_fs ''/bpt/2014/'' ''ma_2'' =
           (case last_read
                   (member_reads text_reader bpt_fs ''/bpt/2014/'' ''ma_2''
                      (concat (map (\<lambda>t. filter (sublist ''_ma'') (snd (snd t)))
                                   (os_walk bpt_fs ''/bpt/2014/''))))
                   None of
              Inl e \<Rightarrow> Inl e
            | Inr None \<Rightarrow> Inl UnboundLocalError
            | Inr (Some df) \<Rightarrow> Inr df)"
    by (rule conjunct1[OF conjunct2])
  show ?thesis
    by (intro conjI) (rule h, rule trans[OF c1 e1], rule e0, rule trans[OF c2 e2])
qed

subsection \<open>The Sheet Loader without a match\<close>

lemma sheet_members_none:
  "\<not> list_ex (sublist ws) ns \<Longrightarrow> foldE (sheet_member rd z ws) ns df = Inr df"
  by (induction ns) (auto simp: sheet_member_def)

lemma sheet_archives_none:
  assumes "list_all (\<lambda>d. case ZipFile fs (path_join dir d) of
                           Inl e \<Rightarrow> True
                         | Inr z \<Rightarrow> \<not> list_ex (sublist ws) (namelist z)) ds"
  shows "foldE (sheet_archive rd fs dir ws) ds df =
           (case List.map_filter (\<lambda>d. case ZipFile fs (path_join dir d) of
                                          Inl e \<Rightarrow> Some e | Inr z \<Rightarrow> None) ds of
              [] \<Rightarrow> Inr df
            | e # es \<Rightarrow> Inl e)"
  using assms
proof (induction ds)
  case Nil
  then show ?case by (simp add: List.map_filter_simps)
next
  case (Cons d ds)
  show ?case
  proof (cases "ZipFile fs (path_join dir d)")
    case (Inl e)
    then show ?thesis by (simp add: sheet_archive_def List.map_filter_simps)
  next
    case (Inr z)
    with Cons.prems have "\<not> list_ex (sublist ws) (namelist z)" by simp
    then have "sheet_archive rd fs dir ws d df = Inr df"
      using Inr by (simp add: sheet_archive_def sheet_members_none)
    with Cons Inr show ?thesis by (simp add: List.map_filter_simps)
  qed
qed

lemma foldE_error:
  assumes "foldE f xs s = Inl e" and "\<And>x a. f x a = Inl e \<Longrightarrow> Q"
  shows Q
  using assms by (induction xs arbitrary: s) (auto split: sum.splits)

lemma step_path_error:
  "step_path c st = Inl e \<Longrightarrow> e = FileNotFoundError \<or> e = NotADirectoryError"
  by (cases "(c, st)" rule: step_path.cases) (auto split: if_splits option.splits)

lemma resolve_error:
  assumes "resolve fs p = Inl e"
  shows "e = FileNotFoundError \<or> e = NotADirectoryError"
proof -
  have "\<And>xs s. foldE step_path xs s = Inl e \<Longrightarrow> ?thesis"
    by (erule foldE_error) (rule step_path_error)
  with assms show ?thesis
    by (auto simp: resolve_def split: if_splits sum.splits list.splits)
qed

lemma ZipFile_error:
  assumes "ZipFile fs p = Inl e"
  shows "e \<in> {FileNotFoundError, NotADirectoryError, IsADirectoryError, BadZipFile}"
  using assms resolve_error[of fs p]
  by (auto simp: ZipFile_def split: sum.splits node.splits)

lemma first_open_error:
  "(case List.map_filter (\<lambda>d. case ZipFile fs (path_join dir d) of
                                 Inl e \<Rightarrow> Some e | Inr z \<Rightarrow> None) ds of
      [] \<Rightarrow> UnboundLocalError
    | e # es \<Rightarrow> e) \<noteq> NoMatchFound"
proof (induction ds)
  case Nil
  then show ?case by (simp add: List.map_filter_simps)
next
  case (Cons d ds)
  then show ?case
    using ZipFile_error[of fs "path_join dir d"]
    by (cases "ZipFile fs (path_join dir d)") (auto simp: List.map_filter_simps)
qed

text \<open>
  C3, as amended. When no archive is selected, or no member of a selected archive that
  opens contains the worksheet tag, the Sheet Loader returns no table. It fails with the
  error of the first selected archive that does not open as a zip file, and with
  \<open>UnboundLocalError\<close> (the local \<^verbatim>\<open>df\<close> was never assigned) when all of them open; it
  never fails with \<open>NoMatchFound\<close>.
\<close>

theorem C3_no_match_unbound:
  assumes "list_all (\<lambda>d. case ZipFile fs (path_join dir_to_query d) of
                           Inl e \<Rightarrow> True
                         | Inr z \<Rightarrow> \<not> list_ex (sublist worksheet) (namelist z))
                    (candidates fs dir_to_query worksheet)"
  shows "load_sheet rd fs dir_to_query worksheet =
           Inl (case List.map_filter (\<lambda>d. case ZipFile fs (path_join dir_to_query d) of
                                             Inl e \<Rightarrow> Some e | Inr z \<Rightarrow> None)
                                     (candidates fs dir_to_query worksheet) of
                  [] \<Rightarrow> UnboundLocalError
                | e # es \<Rightarrow> e)
       \<and> load_sheet rd fs dir_to_query worksheet \<noteq> Inl NoMatchFound"
proof -
  have "load_sheet rd fs dir_to_query worksheet =
           Inl (case List.map_filter (\<lambda>d. case ZipFile fs (path_join dir_to_query d) of
                                             Inl e \<Rightarrow> Some e | Inr z \<Rightarrow> None)
                                     (candidates fs dir_to_query worksheet) of
                  [] \<Rightarrow> UnboundLocalError
                | e # es \<Rightarrow> e)"
    by (simp add: load_sheet_flat sheet_archives_none[OF assms] split: list.splits)
  then show ?thesis using first_open_error[of fs dir_to_query] by simp
qed

theorem C3_no_match_unbound_witness:
  "list_all (\<lambda>d. case ZipFile bpt_fs (path_join ''/bpt/2019/'' d) of
                           Inl e \<Rightarrow> True
                         | Inr z \<Rightarrow> \<not> list_ex (sublist ''ma_5'') (namelist z))
                    (candidates bpt_fs ''/bpt/2019/'' ''ma_5'')
   \<and> candidates bpt_fs ''/bpt/2019/'' ''ma_5'' = [''ma_5.zip'']
   \<and> load_sheet text_reader bpt_fs ''/bpt/2019/'' ''ma_5'' = Inl UnboundLocalError"
proof -
  have h: "list_all (\<lambda>d. case ZipFile bpt_fs (path_join ''/bpt/2019/'' d) of
                           Inl e \<Rightarrow> True
                         | Inr z \<Rightarrow> \<not> list_ex (sublist ''ma_5'') (namelist z))
                    (candidates bpt_fs ''/bpt/2019/'' ''ma_5'')"
    by code_simp
  have c: "candidates bpt_fs ''/bpt/2019/'' ''ma_5'' = [''ma_5.zip'']" by code_simp
  have e: "(case List.map_filter (\<lambda>d. case ZipFile bpt_fs (path_join ''/bpt/2019/'' d) of
                                             Inl e \<Rightarrow> Some e | Inr z \<Rightarrow> None)
                                     (candidates bpt_fs ''/bpt/2019/'' ''ma_5'') of
                  [] \<Rightarrow> UnboundLocalError
                | e # es \<Rightarrow> e) = UnboundLocalError"
    by code_simp
  have "load_sheet text_reader bpt_fs ''/bpt/2019/'' ''ma_5'' = Inl UnboundLocalError"
    using conjunct1[OF C3_no_match_unbound[OF h, of text_reader]] unfolding e .
  with h c show ?thesis by (intro conjI)
qed

text \<open>
  C3, as stated, fails: \<^verbatim>\<open>/bpt/2023/\<close> has no archive for \<^verbatim>\<open>ma_7\<close>, and the Sheet
  Loader fails with \<open>UnboundLocalError\<close>, not with \<open>NoMatchFound\<close>.
\<close>

theorem C3_not_NoMatchFound:
  "candidates bpt_fs ''/bpt/2023/'' ''ma_7'' = []
   \<and> load_sheet text_reader bpt_fs ''/bpt/2023/'' ''ma_7'' = Inl UnboundLocalError
   \<and> load_sheet text_reader bpt_fs ''/bpt/2023/'' ''ma_7'' \<noteq> Inl NoMatchFound"
  by code_simp

subsection \<open>The Data Loader and the key column\<close>

lemma list_all_zip_nth:
  "list_all P (zip xs ys) \<longleftrightarrow> (\<forall>i. i < length xs \<and> i < length ys \<longrightarrow> P (xs ! i, ys ! i))"
  by (auto simp: list_all_length)

lemma dropna_subset_rows:
  "dropna_subset label t =
     (if label \<in> set (columns t)
      then Inr \<lparr>columns = columns t,
                rows = filter (\<lambda>r. \<forall>i. i < length (columns t) \<and> i < length r \<and>
                                         columns t ! i = label \<longrightarrow> r ! i \<noteq> NaN)
                              (rows t)\<rparr>
      else Inl KeyError)"
proof -
  have "\<And>r. list_all (\<lambda>lc. if fst lc = label then snd lc \<noteq> NaN else True) (zip (columns t) r)
        \<longleftrightarrow> (\<forall>i. i < length (columns t) \<and> i < length r \<and> columns t ! i = label \<longrightarrow> r ! i \<noteq> NaN)"
    by (auto simp: list_all_zip_nth)
  then show ?thesis
    by (simp add: dropna_subset_def list_ex_iff)
qed

text \<open>
  C8, as amended. When the Sheet Loader and the Field Renamer succeed, the Data Loader
  removes exactly the rows of the renamed worksheet that have a missing value in a column
  labelled \<^verbatim>\<open>BID ID (H-number, Plan ID, Segment ID)\<close> and keeps all other rows in
  order; when no column has that label after renaming it fails with \<open>KeyError\<close>.
\<close>

theorem C8_drop_rows_without_key:
  assumes "load_sheet rd fs dirpath worksheet = Inr df"
    and "replace_field_to_name dd df = Inr renamed_df"
  shows "data_loader rd fs dirpath worksheet dd =
     (if Str bid_id \<in> set (columns renamed_df)
      then Inr \<lparr>columns = columns renamed_df,
                rows = filter (\<lambda>r. \<forall>i. i < length (columns renamed_df) \<and> i < length r \<and>
                                         columns renamed_df ! i = Str bid_id \<longrightarrow> r ! i \<noteq> NaN)
                              (rows renamed_df)\<rparr>
      else Inl KeyError)"
  using assms by (simp add: data_loader_def dropna_subset_rows)

theorem C8_drop_rows_without_key_witness:
  "load_sheet text_reader bpt_fs ''/bpt/2020/'' ''ma_1'' =
     Inr \<lparr>columns = [bid_id, ''cty''], rows = [[Str ''H1'', Str ''one''], [NaN, Str ''Surrey'']]\<rparr>
   \<and> replace_field_to_name two_row_dict
        \<lparr>columns = [bid_id, ''cty''], rows = [[Str ''H1'', Str ''one''], [NaN, Str ''Surrey'']]\<rparr> =
     Inr \<lparr>columns = [Str bid_id, Str ''cty''],
          rows = [[Str ''H1'', Str ''one''], [NaN, Str ''Surrey'']]\<rparr>
   \<and> data_loader text_reader bpt_fs ''/bpt/2020/'' ''ma_1'' two_row_dict =
     Inr \<lparr>columns = [Str bid_id, Str ''cty''], rows = [[Str ''H1'', Str ''one'']]\<rparr>"
proof -
  have h1: "load_sheet text_reader bpt_fs ''/bpt/2020/'' ''ma_1'' =
     Inr \<lparr>columns = [bid_id, ''cty''], rows = [[Str ''H1'', Str ''one''], [NaN, Str ''Surrey'']]\<rparr>"
    by code_simp
  have h2: "replace_field_to_name two_row_dict
        \<lparr>columns = [bid_id, ''cty''], rows = [[Str ''H1'', Str ''one''], [NaN, Str ''Surrey'']]\<rparr> =
     Inr \<lparr>columns = [Str bid_id, Str ''cty''],
          rows = [[Str ''H1'', Str ''one''], [NaN, Str ''Surrey'']]\<rparr>"
    by code_simp
  have k: "Str ''cty'' \<noteq> Str bid_id" by code_simp
  have "data_loader text_reader bpt_fs ''/bpt/2020/'' ''ma_1'' two_row_dict =
     Inr \<lparr>columns = [Str bid_id, Str ''cty''], rows = [[Str ''H1'', Str ''one'']]\<rparr>"
    using C8_drop_rows_without_key[OF h1 h2] k by (auto simp: nth_Cons')
  with h1 h2 show ?thesis by (intro conjI)
qed

text \<open>
  C8, as stated, fails: the worksheet of \<^verbatim>\<open>/bpt/2022/\<close> has no key column, before or
  after renaming, and the Data Loader fails with \<open>KeyError\<close>, not with
  \<open>KeyColumnMissing\<close>.
\<close>

theorem C8_not_KeyColumnMissing:
  "load_sheet text_reader bpt_fs ''/bpt/2022/'' ''ma_1'' =
     Inr \<lparr>columns = [''cty''], rows = [[Str ''low''], [Str ''high'']]\<rparr>
   \<and> replace_field_to_name two_row_dict
        \<lparr>columns = [''cty''], rows = [[Str ''low''], [Str ''high'']]\<rparr> =
     Inr \<lparr>columns = [Str ''cty''], rows = [[Str ''low''], [Str ''high'']]\<rparr>
   \<and> data_loader text_reader bpt_fs ''/bpt/2022/'' ''ma_1'' two_row_dict = Inl KeyError
   \<and> data_loader text_reader bpt_fs ''/bpt/2022/'' ''ma_1'' two_row_dict \<noteq> Inl KeyColumnMissing"
  by code_simp

subsection \<open>The Field Renamer on several label columns\<close>

lemma select_filter:
  "map snd (filter fst (zip (map P xs) xs)) = filter P xs"
  by (induction xs) auto

lemma select_columns_columns:
  "columns (select_columns (map P (columns t)) t) = filter P (columns t)"
  by (simp add: select_columns_def select_filter)

lemma select_columns_rows:
  "length (rows (select_columns sel t)) = length (rows t)"
  by (simp add: select_columns_def)

lemma getitem_iter:
  "(case getitem dd l of Inl e \<Rightarrow> Inl e | Inr names \<Rightarrow> py_iter names) =
     (if list_ex (\<lambda>c. c = l) (columns dd)
      then Inr (if length (filter (\<lambda>c. c = l) (columns dd)) = 1
                then concat (rows (select_columns (map (\<lambda>c. c = l) (columns dd)) dd))
                else map Str (filter (\<lambda>c. c = l) (columns dd)))
      else Inl KeyError)"
proof -
  have "length (filter (\<lambda>c. c = l) (columns dd)) = 0 \<longleftrightarrow> \<not> list_ex (\<lambda>c. c = l) (columns dd)"
    by (auto simp: list_ex_iff filter_empty_conv)
  then show ?thesis
    by (auto simp: getitem_def Let_def select_columns_columns)
qed

text \<open>
  C7, as amended. A dictionary with more than one column header matching \<^verbatim>\<open>FIELD\<close>
  raises no error on that account. Without a \<^verbatim>\<open>NAME\<close> column the Field Renamer fails
  with \<open>KeyError\<close>; otherwise it returns the worksheet renamed by the pairs of the
  \<^verbatim>\<open>NAME\<close> entries, in order, with the matching column headers themselves, or, for a
  dictionary of one row, with the values of that row in the matching columns.
\<close>

theorem C7_two_field_columns:
  assumes "2 \<le> length (filter (sublist ''FIELD'') (columns dd))"
  shows "replace_field_to_name dd df \<noteq> Inl AmbiguousDictionarySchema
       \<and> replace_field_to_name dd df =
          (if list_ex (\<lambda>c. c = ''NAME'') (columns dd)
           then Inr (rename_columns
                  (zip (if length (filter (\<lambda>c. c = ''NAME'') (columns dd)) = 1
                        then concat (rows (select_columns (map (\<lambda>c. c = ''NAME'') (columns dd)) dd))
                        else map Str (filter (\<lambda>c. c = ''NAME'') (columns dd)))
                       (if length (rows dd) = 1
                        then concat (rows (select_columns (map (sublist ''FIELD'') (columns dd)) dd))
                        else map Str (filter (sublist ''FIELD'') (columns dd))))
                  df)
           else Inl KeyError)"
proof -
  let ?flds = "select_columns (map (sublist ''FIELD'') (columns dd)) dd"
  have k: "length (columns ?flds) \<noteq> 1" using assms by (simp add: select_columns_columns)
  have it: "py_iter (squeeze ?flds) =
              Inr (if length (rows dd) = 1 then concat (rows ?flds)
                   else map Str (filter (sublist ''FIELD'') (columns dd)))"
    using k by (simp add: squeeze_def Let_def select_columns_rows select_columns_columns)
  have eq: "replace_field_to_name dd df =
          (if list_ex (\<lambda>c. c = ''NAME'') (columns dd)
           then Inr (rename_columns
                  (zip (if length (filter (\<lambda>c. c = ''NAME'') (columns dd)) = 1
                        then concat (rows (select_columns (map (\<lambda>c. c = ''NAME'') (columns dd)) dd))
                        else map Str (filter (\<lambda>c. c = ''NAME'') (columns dd)))
                       (if length (rows dd) = 1
                        then concat (rows ?flds)
                        else map Str (filter (sublist ''FIELD'') (columns dd))))
                  df)
           else Inl KeyError)"
  proof (cases "getitem dd ''NAME''")
    case (Inl e)
    with getitem_iter[of dd "''NAME''"] show ?thesis
      by (auto simp: replace_field_to_name_def split: if_splits)
  next
    case (Inr names)
    with getitem_iter[of dd "''NAME''"] it show ?thesis
      by (auto simp: replace_field_to_name_def Let_def split: if_splits)
  qed
  then show ?thesis by (auto split: if_splits)
qed

theorem C7_two_field_columns_witness:
  "2 \<le> length (filter (sublist ''FIELD'') (columns two_field_dict))
   \<and> replace_field_to_name two_field_dict plan_sheet =
       Inr \<lparr>columns = [Str ''FIELD_TITLE'', Str ''FIELD_LENGTH'', Str ''F3''],
            rows = [[Str ''Gold'', Str ''North'', Str ''x'']]\<rparr>"
proof -
  have h: "2 \<le> length (filter (sublist ''FIELD'') (columns two_field_dict))" by code_simp
  have e: "(if list_ex (\<lambda>c. c = ''NAME'') (columns two_field_dict)
           then Inr (rename_columns
                  (zip (if length (filter (\<lambda>c. c = ''NAME'') (columns two_field_dict)) = 1
                        then concat (rows (select_columns (map (\<lambda>c. c = ''NAME'') (columns two_field_dict)) two_field_dict))
                        else map Str (filter (\<lambda>c. c = ''NAME'') (columns two_field_dict)))
                       (if length (rows two_field_dict) = 1
                        then concat (rows (select_columns (map (sublist ''FIELD'') (columns two_field_dict)) two_field_dict))
                        else map Str (filter (sublist ''FIELD'') (columns two_field_dict))))
                  plan_sheet)
           else Inl KeyError) =
       Inr \<lparr>columns = [Str ''FIELD_TITLE'', Str ''FIELD_LENGTH'', Str ''F3''],
            rows = [[Str ''Gold'', Str ''North'', Str ''x'']]\<rparr>"
    by code_simp
  have "replace_field_to_name two_field_dict plan_sheet =
       Inr \<lparr>columns = [Str ''FIELD_TITLE'', Str ''FIELD_LENGTH'', Str ''F3''],
            rows = [[Str ''Gold'', Str ''North'', Str ''x'']]\<rparr>"
    using conjunct2[OF C7_two_field_columns[OF h, of plan_sheet]] unfolding e .
  with h show ?thesis by (intro conjI)
qed

text \<open>
  C7, as stated, fails: the dictionary with the columns \<^verbatim>\<open>FIELD_TITLE\<close> and
  \<^verbatim>\<open>FIELD_LENGTH\<close> gives no error; the worksheet columns \<^verbatim>\<open>F1\<close> and \<^verbatim>\<open>F2\<close> are
  renamed to those two headers.
\<close>

theorem C7_no_AmbiguousDictionarySchema:
  "length (filter (sublist ''FIELD'') (columns two_field_dict)) = 2
   \<and> replace_field_to_name two_field_dict plan_sheet =
       Inr \<lparr>columns = [Str ''FIELD_TITLE'', Str ''FIELD_LENGTH'', Str ''F3''],
            rows = [[Str ''Gold'', Str ''North'', Str ''x'']]\<rparr>
   \<and> replace_field_to_name two_field_dict plan_sheet \<noteq> Inl AmbiguousDictionarySchema"
  by code_simp

subsection \<open>The County Data Loader on three parts\<close>

lemma pad_rows_full:
  "length (rows t) = n \<Longrightarrow> pad_rows n t = rows t"
  by (simp add: pad_rows_def)

text \<open>
  C5. When the County Data Loader has collected three parts of one column each and of
  the same number of rows, it returns one table: its columns are the columns of the
  three parts in the order of discovery, its rows are as many as the parts have, and
  each row is the three rows of that position side by side.
\<close>

theorem C5_three_parts_side_by_side:
  assumes "county_parts re_compile rd fs dir_to_query worksheet = Inr [t1, t2, t3]"
    and "length (columns t1) = 1" "length (columns t2) = 1" "length (columns t3) = 1"
    and "length (rows t1) = n" "length (rows t2) = n" "length (rows t3) = n"
  shows "\<exists>t. load_county_data re_compile rd fs dir_to_query worksheet = Inr t
           \<and> columns t = columns t1 @ columns t2 @ columns t3
           \<and> length (columns t) = 3
           \<and> length (rows t) = n
           \<and> rows t = map (\<lambda>i. rows t1 ! i @ rows t2 ! i @ rows t3 ! i) [0..<n]"
proof -
  have m: "foldr max (map (\<lambda>t. length (rows t)) [t1, t2, t3]) 0 = n"
    using assms(5-7) by simp
  have "concat_axis1 [t1, t2, t3] =
          Inr \<lparr>columns = columns t1 @ columns t2 @ columns t3,
               rows = map (\<lambda>i. rows t1 ! i @ rows t2 ! i @ rows t3 ! i) [0..<n]\<rparr>"
    unfolding concat_axis1_def Let_def m
    using assms(5-7) by (simp add: pad_rows_full)
  then show ?thesis
    using assms(1-4) by (simp add: load_county_data_def)
qed

theorem C5_three_parts_side_by_side_witness:
  "county_parts literal_regex text_reader bpt_fs ''/bpt/2019/'' ''ma_5'' =
      Inr [\<lparr>columns = [''Kent''], rows = [[Str ''low''], [Str ''high'']]\<rparr>,
           \<lparr>columns = [''Essex''], rows = [[Str ''low''], [Str ''high'']]\<rparr>,
           \<lparr>columns = [''Surrey''], rows = [[Str ''low''], [Str ''high'']]\<rparr>]
   \<and> load_county_data literal_regex text_reader bpt_fs ''/bpt/2019/'' ''ma_5'' =
      Inr \<lparr>columns = [''Kent'', ''Essex'', ''Surrey''],
           rows = [[Str ''low'', Str ''low'', Str ''low''],
                   [Str ''high'', Str ''high'', Str ''high'']]\<rparr>"
proof -
  have h: "county_parts literal_regex text_reader bpt_fs ''/bpt/2019/'' ''ma_5'' =
      Inr [\<lparr>columns = [''Kent''], rows = [[Str ''low''], [Str ''high'']]\<rparr>,
           \<lparr>columns = [''Essex''], rows = [[Str ''low''], [Str ''high'']]\<rparr>,
           \<lparr>columns = [''Surrey''], rows = [[Str ''low''], [Str ''high'']]\<rparr>]"
    by code_simp
  from C5_three_parts_side_by_side[OF h, of 2]
  obtain t where t: "load_county_data literal_regex text_reader bpt_fs ''/bpt/2019/'' ''ma_5'' = Inr t"
    "columns t = [''Kent'', ''Essex'', ''Surrey'']"
    "rows t = map (\<lambda>i. [[Str ''low''], [Str ''high'']] ! i @ [[Str ''low''], [Str ''high'']] ! i
                         @ [[Str ''low''], [Str ''high'']] ! i) [0..<2]"
    by auto
  have "[0..<2] = [0, Suc 0]" by (simp add: upt_rec)
  with t(3) have "rows t = [[Str ''low'', Str ''low'', Str ''low''],
                   [Str ''high'', Str ''high'', Str ''high'']]" by simp
  with t(1,2) have "load_county_data literal_regex text_reader bpt_fs ''/bpt/2019/'' ''ma_5'' =
      Inr \<lparr>columns = [''Kent'', ''Essex'', ''Surrey''],
           rows = [[Str ''low'', Str ''low'', Str ''low''],
                   [Str ''high'', Str ''high'', Str ''high'']]\<rparr>"
    by (cases t) simp
  with h show ?thesis by (intro conjI)
qed

subsection \<open>Construction of the bundle is all or nothing\<close>

lemma BPT_init_first_failure:
  "(case first_failure rd fs yeardir of
      Some e \<Rightarrow> BPT_init rd fs yeardir = Inl e
    | None \<Rightarrow> (\<exists>b. BPT_init rd fs yeardir = Inr b))"
  unfolding first_failure_def BPT_init_def bindE_def worksheets_def
  by (simp add: List.map_filter_simps split: sum.splits)



lemma map_filter_errors_nonempty:
  "list_ex (\<lambda>w. isl (f w)) ws \<Longrightarrow>
   List.map_filter (\<lambda>w. case f w of Inl e \<Rightarrow> Some e | Inr t \<Rightarrow> None) ws \<noteq> []"
  by (induction ws) (auto simp: List.map_filter_simps split: sum.splits)

text \<open>
  C4. When the dictionary load fails, or the dictionary loads and the load of one of the
  seven worksheets fails, the constructor returns no bundle: it fails, and with the error
  of the first statement that failed. (A bundle is returned only when every statement
  succeeded, and then holds their results: \<open>BPT_init_loaded\<close>.)
\<close>

theorem C4_all_or_nothing:
  assumes "isl (load_data_dict rd fs yeardir)
         \<or> (case load_data_dict rd fs yeardir of
               Inl e \<Rightarrow> False
             | Inr dd \<Rightarrow> list_ex (\<lambda>w. isl (data_loader rd fs yeardir w dd)) worksheets)"
  shows "\<exists>e. first_failure rd fs yeardir = Some e \<and> BPT_init rd fs yeardir = Inl e"
proof -
  have "first_failure rd fs yeardir \<noteq> None"
  proof (cases "py_index (split_sep CHR ''/'' yeardir) (- 2)")
    case (Inl e)
    then show ?thesis by (simp add: first_failure_def)
  next
    case y: (Inr y)
    show ?thesis
    proof (cases "load_data_dict rd fs yeardir")
      case (Inl e)
      with y show ?thesis by (simp add: first_failure_def)
    next
      case (Inr dd)
      with assms have "list_ex (\<lambda>w. isl (data_loader rd fs yeardir w dd)) worksheets"
        by simp
      from map_filter_errors_nonempty[OF this] y Inr show ?thesis
        by (simp add: first_failure_def split: list.splits)
    qed
  qed
  then obtain e where e: "first_failure rd fs yeardir = Some e" by auto
  with BPT_init_first_failure[of rd fs yeardir] have "BPT_init rd fs yeardir = Inl e"
    by simp
  with e show ?thesis by simp
qed

theorem C4_all_or_nothing_witness:
  "(case load_data_dict text_reader bpt_fs ''/bpt/2023/'' of
      Inl e \<Rightarrow> False
    | Inr dd \<Rightarrow> list_ex (\<lambda>w. isl (data_loader text_reader bpt_fs ''/bpt/2023/'' w dd)) worksheets)
   \<and> first_failure text_reader bpt_fs ''/bpt/2023/'' = Some UnboundLocalError
   \<and> BPT_init text_reader bpt_fs ''/bpt/2023/'' = Inl UnboundLocalError"
proof -
  have h: "case load_data_dict text_reader bpt_fs ''/bpt/2023/'' of
      Inl e \<Rightarrow> False
    | Inr dd \<Rightarrow> list_ex (\<lambda>w. isl (data_loader text_reader bpt_fs ''/bpt/2023/'' w dd)) worksheets"
    by code_simp
  have f: "first_failure text_reader bpt_fs ''/bpt/2023/'' = Some UnboundLocalError"
    by code_simp
  from C4_all_or_nothing[OF disjI2, OF h] f
  have "BPT_init text_reader bpt_fs ''/bpt/2023/'' = Inl UnboundLocalError" by auto
  with h f show ?thesis by (intro conjI)
qed

subsection \<open>The year label\<close>









lemma step_path_nonempty: "step_path c st = Inr st' \<Longrightarrow> st' \<noteq> []"
  by (cases "(c, st)" rule: step_path.cases) (auto split: if_splits option.splits)




lemma step_path_dir_stay: "step_path [] (Directory es # anc) = Inr (Directory es # anc)"
  by simp





end
